theory Spec2Isabelle
  imports Main "HOL-Library.Word"
begin

section \<open>The instruction graph of the encoder (encode_opcode.go)\<close>

text \<open>
  The opcodes of the encoder are heap objects linked by pointers and edited in place.
  The embedding keeps that: a heap is the list of all allocated opcodes, the address of
  an opcode is its position in the list, a pointer is an optional address (\<open>None\<close> is
  Go's \<open>nil\<close>), and allocation appends to the list. Machine integers are 64-bit words
  (a 64-bit platform: \<open>uintptrSize\<close> is 8 and \<open>int\<close> has 64 bits, read with \<open>sint\<close>).
\<close>

subsection \<open>Data\<close>

type_synonym uintptr = "64 word"
type_synonym goint = "64 word"
type_synonym addr = nat
type_synonym ptr = "addr option"

definition uintptrSize :: uintptr where
  "uintptrSize = 8"

text \<open>
  Modelled from the spec: the generated operation table (the type \<open>opType\<close>, its
  \<open>codeType\<close> and \<open>String\<close> methods and the type \<open>codeType\<close>) is not part of
  encode_opcode.go. The datatypes below hold the operation kinds and kind families
  that encode_opcode.go names; \<open>opOther\<close> and \<open>codeOther\<close> stand for the remaining
  entries of the table. The functions that call \<open>code.op.codeType()\<close> take the table as
  their parameter \<open>ct\<close>, those that print \<open>code.op\<close> take its \<open>String\<close> method as \<open>os\<close>.
\<close>

datatype opType =
    opEnd | opInterface | opInterfaceEnd
  | opStructFieldRecursive | opStructFieldRecursiveEnd
  | opSliceHead | opSliceElem | opArrayHead | opArrayElem
  | opMapHead | opMapHeadLoad | opMapKey | opMapValue | opMapEnd
  | opOther nat

datatype codeType =
    codeArrayHead | codeArrayElem | codeSliceHead | codeSliceElem
  | codeMapHead | codeMapKey | codeMapValue | codeMapEnd
  | codeStructField | codeOther nat

text \<open>
  Modelled from the spec: the table that sends each operation kind named in
  encode_opcode.go to the family of the same name and every other kind to a family
  without a case of its own. It is the table the examples are evaluated with; the
  theorems hold for every table \<open>ct\<close>.
\<close>

fun codeTypeOf :: "opType \<Rightarrow> codeType" where
  "codeTypeOf opSliceHead = codeSliceHead"
| "codeTypeOf opSliceElem = codeSliceElem"
| "codeTypeOf opArrayHead = codeArrayHead"
| "codeTypeOf opArrayElem = codeArrayElem"
| "codeTypeOf opMapHead = codeMapHead"
| "codeTypeOf opMapHeadLoad = codeMapHead"
| "codeTypeOf opMapKey = codeMapKey"
| "codeTypeOf opMapValue = codeMapValue"
| "codeTypeOf opMapEnd = codeMapEnd"
| "codeTypeOf (opOther n) = (if n = 0 then codeStructField else codeOther 0)"
| "codeTypeOf _ = codeOther 0"

record opcode =
  op :: opType
  typ_f :: "nat option"
  displayIdx :: goint
  key :: "8 word list"
  escapedKey :: "8 word list"
  displayKey :: string
  isTaggedKey :: bool
  anonymousKey :: bool
  root :: bool
  indent :: goint
  idx :: uintptr
  headIdx :: uintptr
  elemIdx :: uintptr
  length_f :: uintptr
  mapIter :: uintptr
  mapPos :: uintptr
  offset_f :: uintptr
  size_f :: uintptr
  mapKey :: ptr
  mapValue :: ptr
  elem :: ptr
  end_f :: ptr
  nextField :: ptr
  next_f :: ptr
  jmp :: "nat option"

type_synonym heap = "opcode list"

text \<open>
  Modelled from the spec: the compile context (type \<open>encodeCompileContext\<close>) and its
  method \<open>incPtrIndex\<close> are declared outside encode_opcode.go. The record holds the
  fields that encode_opcode.go reads; \<open>incPtrIndex\<close> consumes one slot.
\<close>

record encodeCompileContext =
  ctx_typ :: "nat option"
  ctx_root :: bool
  opcodeIndex :: goint
  ptrIndex :: goint
  ctx_indent :: goint

definition incPtrIndex :: "encodeCompileContext \<Rightarrow> encodeCompileContext" where
  "incPtrIndex ctx = ctx\<lparr>ptrIndex := ptrIndex ctx + 1\<rparr>"

datatype error = NilDereference | NegativeRepeatCount

text \<open>
  Reading a field through a pointer: \<open>nil\<close> panics. An address outside the heap does
  not exist in Go; the model gives it the same panic.
\<close>

definition deref :: "heap \<Rightarrow> ptr \<Rightarrow> error + opcode" where
  "deref h p = (case p of None \<Rightarrow> Inl NilDereference
     | Some a \<Rightarrow> if a < length h then Inr (h ! a) else Inl NilDereference)"

text \<open>The composite literal \<open>&opcode{op: k}\<close>: every other field has its zero value.\<close>

definition opcodeLit :: "opType \<Rightarrow> opcode" where
  "opcodeLit k = \<lparr>op = k, typ_f = None, displayIdx = 0, key = [], escapedKey = [],
     displayKey = [], isTaggedKey = False, anonymousKey = False, root = False, indent = 0,
     idx = 0, headIdx = 0, elemIdx = 0, length_f = 0, mapIter = 0, mapPos = 0,
     offset_f = 0, size_f = 0, mapKey = None, mapValue = None, elem = None, end_f = None,
     nextField = None, next_f = None, jmp = None\<rparr>"

definition alloc :: "opcode \<Rightarrow> heap \<Rightarrow> ptr \<times> heap" where
  "alloc c h = (Some (length h), h @ [c])"

subsection \<open>Constructors\<close>

definition opcodeOffset :: "goint \<Rightarrow> uintptr" where
  "opcodeOffset i = i * uintptrSize"

definition newOpCodeWithNext ::
  "encodeCompileContext \<Rightarrow> opType \<Rightarrow> ptr \<Rightarrow> heap \<Rightarrow> ptr \<times> heap" where
  "newOpCodeWithNext ctx k nxt h =
     alloc ((opcodeLit k)\<lparr>typ_f := ctx_typ ctx, displayIdx := opcodeIndex ctx,
       indent := ctx_indent ctx, idx := opcodeOffset (ptrIndex ctx), next_f := nxt\<rparr>) h"

definition newEndOp :: "encodeCompileContext \<Rightarrow> heap \<Rightarrow> ptr \<times> heap" where
  "newEndOp ctx h = newOpCodeWithNext ctx opEnd None h"

definition newOpCode :: "encodeCompileContext \<Rightarrow> opType \<Rightarrow> heap \<Rightarrow> ptr \<times> heap" where
  "newOpCode ctx k h = (let (e, h1) = newEndOp ctx h in newOpCodeWithNext ctx k e h1)"

definition newSliceHeaderCode ::
  "encodeCompileContext \<Rightarrow> heap \<Rightarrow> ptr \<times> heap \<times> encodeCompileContext" where
  "newSliceHeaderCode ctx h =
     (let i = opcodeOffset (ptrIndex ctx);
          ctx1 = incPtrIndex ctx;
          e = opcodeOffset (ptrIndex ctx1);
          ctx2 = incPtrIndex ctx1;
          l = opcodeOffset (ptrIndex ctx2);
          (p, h1) = alloc ((opcodeLit opSliceHead)\<lparr>displayIdx := opcodeIndex ctx2,
             idx := i, headIdx := i, elemIdx := e, length_f := l,
             indent := ctx_indent ctx2\<rparr>) h
      in (p, h1, ctx2))"


definition newArrayHeaderCode ::
  "encodeCompileContext \<Rightarrow> goint \<Rightarrow> heap \<Rightarrow> ptr \<times> heap \<times> encodeCompileContext" where
  "newArrayHeaderCode ctx alen h =
     (let i = opcodeOffset (ptrIndex ctx);
          ctx1 = incPtrIndex ctx;
          e = opcodeOffset (ptrIndex ctx1);
          (p, h1) = alloc ((opcodeLit opArrayHead)\<lparr>displayIdx := opcodeIndex ctx1,
             idx := i, headIdx := i, elemIdx := e, indent := ctx_indent ctx1,
             length_f := alen\<rparr>) h
      in (p, h1, ctx1))"

definition newArrayElemCode ::
  "encodeCompileContext \<Rightarrow> ptr \<Rightarrow> goint \<Rightarrow> uintptr \<Rightarrow> heap \<Rightarrow> error + ptr \<times> heap" where
  "newArrayElemCode ctx head len sz h =
     (case deref h head of Inl e \<Rightarrow> Inl e
      | Inr hc \<Rightarrow> Inr (alloc ((opcodeLit opArrayElem)\<lparr>displayIdx := opcodeIndex ctx,
          idx := opcodeOffset (ptrIndex ctx), elemIdx := elemIdx hc, headIdx := headIdx hc,
          length_f := len, size_f := sz\<rparr>) h))"

definition newMapHeaderCode ::
  "encodeCompileContext \<Rightarrow> bool \<Rightarrow> heap \<Rightarrow> ptr \<times> heap \<times> encodeCompileContext" where
  "newMapHeaderCode ctx withLoad h =
     (let k = (if withLoad then opMapHeadLoad else opMapHead);
          i = opcodeOffset (ptrIndex ctx);
          ctx1 = incPtrIndex ctx;
          e = opcodeOffset (ptrIndex ctx1);
          ctx2 = incPtrIndex ctx1;
          l = opcodeOffset (ptrIndex ctx2);
          ctx3 = incPtrIndex ctx2;
          mi = opcodeOffset (ptrIndex ctx3);
          (p, h1) = alloc ((opcodeLit k)\<lparr>typ_f := ctx_typ ctx3,
             displayIdx := opcodeIndex ctx3, idx := i, elemIdx := e, length_f := l,
             mapIter := mi, indent := ctx_indent ctx3\<rparr>) h
      in (p, h1, ctx3))"



text \<open>
  \<open>newMapEndCode\<close> evaluates the fields of its literal in order: \<open>head.length\<close> is read
  (and panics on a nil head) before \<open>newEndOp\<close> allocates the terminal opcode.
\<close>

definition newMapEndCode ::
  "encodeCompileContext \<Rightarrow> ptr \<Rightarrow> heap \<Rightarrow> error + ptr \<times> heap \<times> encodeCompileContext" where
  "newMapEndCode ctx head h =
     (let mp = opcodeOffset (ptrIndex ctx);
          ctx1 = incPtrIndex ctx;
          i = opcodeOffset (ptrIndex ctx1)
      in case deref h head of Inl e \<Rightarrow> Inl e
         | Inr hc \<Rightarrow>
             (let (e, h1) = newEndOp ctx1 h;
                  (p, h2) = alloc ((opcodeLit opMapEnd)\<lparr>displayIdx := opcodeIndex ctx1,
                     idx := i, length_f := length_f hc, mapPos := mp,
                     indent := ctx_indent ctx1, next_f := e\<rparr>) h1
              in Inr (p, h2, ctx1)))"

definition newInterfaceCode :: "encodeCompileContext \<Rightarrow> heap \<Rightarrow> ptr \<times> heap" where
  "newInterfaceCode ctx h =
     (let (e, h1) = newEndOp ctx h
      in alloc ((opcodeLit opInterface)\<lparr>typ_f := ctx_typ ctx, displayIdx := opcodeIndex ctx,
           idx := opcodeOffset (ptrIndex ctx), indent := ctx_indent ctx,
           root := ctx_root ctx, next_f := e\<rparr>) h1)"

definition newRecursiveCode ::
  "encodeCompileContext \<Rightarrow> nat option \<Rightarrow> heap \<Rightarrow> ptr \<times> heap" where
  "newRecursiveCode ctx j h =
     (let (e, h1) = newEndOp ctx h
      in alloc ((opcodeLit opStructFieldRecursive)\<lparr>typ_f := ctx_typ ctx,
           displayIdx := opcodeIndex ctx, idx := opcodeOffset (ptrIndex ctx),
           indent := ctx_indent ctx, next_f := e, jmp := j\<rparr>) h1)"

subsection \<open>Walks along the fallthrough edge\<close>

text \<open>
  The switch that \<open>beforeLastCode\<close>, \<open>totalLength\<close>, \<open>decOpcodeIndex\<close> and
  \<open>linkPrevToNextField\<close> all use to step: \<open>end\<close> for array elements, slice elements
  and map keys, \<open>next\<close> for every other kind.
\<close>

definition fallthrough :: "(opType \<Rightarrow> codeType) \<Rightarrow> opcode \<Rightarrow> ptr" where
  "fallthrough ct c =
     (case ct (op c) of
        codeArrayElem \<Rightarrow> end_f c
      | codeSliceElem \<Rightarrow> end_f c
      | codeMapKey \<Rightarrow> end_f c
      | _ \<Rightarrow> next_f c)"

definition store :: "heap \<Rightarrow> ptr \<Rightarrow> opcode \<Rightarrow> heap" where
  "store h p c = (case p of None \<Rightarrow> h | Some a \<Rightarrow> h[a := c])"

text \<open>
  The loops of the source have no bound of their own: on a cyclic chain they run
  forever. Each loop takes a number of iterations it may run (its first argument);
  \<open>None\<close> says that the number was used up, \<open>Some (Inl e)\<close> is a panic and
  \<open>Some (Inr v)\<close> the returned value.
\<close>

fun beforeLastCode ::
  "nat \<Rightarrow> (opType \<Rightarrow> codeType) \<Rightarrow> heap \<Rightarrow> ptr \<Rightarrow> (error + ptr) option" where
  "beforeLastCode 0 ct h code = None"
| "beforeLastCode (Suc n) ct h code =
     (case deref h code of Inl e \<Rightarrow> Some (Inl e)
      | Inr c \<Rightarrow>
          (let nextCode = fallthrough ct c
           in case deref h nextCode of Inl e \<Rightarrow> Some (Inl e)
              | Inr nc \<Rightarrow>
                  if op nc = opEnd then Some (Inr code)
                  else beforeLastCode n ct h nextCode))"



text \<open>The body of the loop of \<open>decOpcodeIndex\<close>: the edits of one opcode.\<close>

definition decIndex :: "(opType \<Rightarrow> codeType) \<Rightarrow> opcode \<Rightarrow> opcode" where
  "decIndex ct c =
     (let c = c\<lparr>displayIdx := displayIdx c - 1\<rparr>;
          c = c\<lparr>idx := idx c - uintptrSize\<rparr>;
          c = (if headIdx c > 0 then c\<lparr>headIdx := headIdx c - uintptrSize\<rparr> else c);
          c = (if elemIdx c > 0 then c\<lparr>elemIdx := elemIdx c - uintptrSize\<rparr> else c);
          c = (if mapIter c > 0 then c\<lparr>mapIter := mapIter c - uintptrSize\<rparr> else c);
          c = (if length_f c > 0 \<and> ct (op c) \<noteq> codeArrayHead \<and> ct (op c) \<noteq> codeArrayElem
               then c\<lparr>length_f := length_f c - uintptrSize\<rparr> else c)
      in c)"

fun decOpcodeIndex ::
  "nat \<Rightarrow> (opType \<Rightarrow> codeType) \<Rightarrow> heap \<Rightarrow> ptr \<Rightarrow> (error + heap) option" where
  "decOpcodeIndex 0 ct h code = None"
| "decOpcodeIndex (Suc n) ct h code =
     (case deref h code of Inl e \<Rightarrow> Some (Inl e)
      | Inr c \<Rightarrow>
          if op c = opEnd then Some (Inr h)
          else (let c' = decIndex ct c
                in decOpcodeIndex n ct (store h code c') (fallthrough ct c')))"

fun linkPrevToNextField_loop ::
  "nat \<Rightarrow> (opType \<Rightarrow> codeType) \<Rightarrow> ptr \<Rightarrow> heap \<Rightarrow> ptr \<Rightarrow> (error + heap) option" where
  "linkPrevToNextField_loop 0 ct fcode h code = None"
| "linkPrevToNextField_loop (Suc n) ct fcode h code =
     (case deref h code of Inl e \<Rightarrow> Some (Inl e)
      | Inr c \<Rightarrow>
          (let nextCode = fallthrough ct c
           in if nextCode = fcode
              then (case deref h fcode of Inl e \<Rightarrow> Some (Inl e)
                    | Inr f \<Rightarrow> Some (Inr (store h code (c\<lparr>next_f := next_f f\<rparr>))))
              else (case deref h nextCode of Inl e \<Rightarrow> Some (Inl e)
                    | Inr nc \<Rightarrow>
                        if op nc = opEnd then Some (Inr h)
                        else linkPrevToNextField_loop n ct fcode h nextCode)))"

definition linkPrevToNextField ::
  "nat \<Rightarrow> (opType \<Rightarrow> codeType) \<Rightarrow> ptr \<Rightarrow> ptr \<Rightarrow> heap \<Rightarrow> (error + heap) option" where
  "linkPrevToNextField n ct prev cur h =
     (case deref h prev of Inl e \<Rightarrow> Some (Inl e)
      | Inr p \<Rightarrow>
          (case deref h cur of Inl e \<Rightarrow> Some (Inl e)
           | Inr c \<Rightarrow>
               linkPrevToNextField_loop n ct cur
                 (store h prev (p\<lparr>nextField := nextField c\<rparr>)) prev))"

subsection \<open>Cloning\<close>

definition bindR ::
  "(error + 'a) option \<Rightarrow> ('a \<Rightarrow> (error + 'b) option) \<Rightarrow> (error + 'b) option" where
  "bindR x f = (case x of None \<Rightarrow> None | Some (Inl e) \<Rightarrow> Some (Inl e) | Some (Inr v) \<Rightarrow> f v)"

type_synonym codemap = "addr \<Rightarrow> ptr option"

text \<open>
  The method \<open>copy\<close> recurses into the six links of an opcode; the identity-keyed map
  \<open>codeMap\<close> (keyed by the address of the original) stops it on a graph with cycles. The
  first argument bounds the depth of the recursion. The fields of the original are read
  from the heap at the moment the source reads them, and each link of the copy is
  written after the recursive call that computes it has returned.
\<close>

fun copy ::
  "nat \<Rightarrow> ptr \<Rightarrow> heap \<times> codemap \<Rightarrow> (error + ptr \<times> heap \<times> codemap) option" where
  "copy 0 c s = None"
| "copy (Suc n) c (h, codeMap) =
     (case c of None \<Rightarrow> Some (Inr (None, h, codeMap))
      | Some a \<Rightarrow>
          (case codeMap a of Some code \<Rightarrow> Some (Inr (code, h, codeMap))
           | None \<Rightarrow>
               (case deref h c of Inl e \<Rightarrow> Some (Inl e)
                | Inr oc \<Rightarrow>
                    (let k = length h;
                         h = h @ [(opcodeLit (op oc))\<lparr>typ_f := typ_f oc,
                            displayIdx := displayIdx oc, key := key oc,
                            escapedKey := escapedKey oc, displayKey := displayKey oc,
                            isTaggedKey := isTaggedKey oc, anonymousKey := anonymousKey oc,
                            root := root oc, indent := indent oc, idx := idx oc,
                            headIdx := headIdx oc, elemIdx := elemIdx oc,
                            length_f := length_f oc, mapIter := mapIter oc,
                            mapPos := mapPos oc, offset_f := offset_f oc,
                            size_f := size_f oc\<rparr>];
                         codeMap = codeMap(a \<mapsto> Some k)
                     in bindR (copy n (mapKey (h ! a)) (h, codeMap)) (\<lambda>(r, h, codeMap).
                        let h = h[k := (h ! k)\<lparr>mapKey := r\<rparr>]
                        in bindR (copy n (mapValue (h ! a)) (h, codeMap)) (\<lambda>(r, h, codeMap).
                        let h = h[k := (h ! k)\<lparr>mapValue := r\<rparr>]
                        in bindR (copy n (elem (h ! a)) (h, codeMap)) (\<lambda>(r, h, codeMap).
                        let h = h[k := (h ! k)\<lparr>elem := r\<rparr>]
                        in bindR (copy n (end_f (h ! a)) (h, codeMap)) (\<lambda>(r, h, codeMap).
                        let h = h[k := (h ! k)\<lparr>end_f := r\<rparr>]
                        in bindR (copy n (nextField (h ! a)) (h, codeMap)) (\<lambda>(r, h, codeMap).
                        let h = h[k := (h ! k)\<lparr>nextField := r\<rparr>]
                        in bindR (copy n (next_f (h ! a)) (h, codeMap)) (\<lambda>(r, h, codeMap).
                        let h = h[k := (h ! k)\<lparr>next_f := r\<rparr>]
                        in let h = h[k := (h ! k)\<lparr>jmp := jmp (h ! a)\<rparr>]
                        in Some (Inr (Some k, h, codeMap))))))))))))"

definition copyOpcode :: "nat \<Rightarrow> ptr \<Rightarrow> heap \<Rightarrow> (error + ptr \<times> heap) option" where
  "copyOpcode n code h =
     bindR (copy n code (h, Map.empty)) (\<lambda>(r, h, codeMap). Some (Inr (r, h)))"

subsection \<open>Disassembly\<close>

text \<open>The verb \<open>%d\<close> of \<open>fmt.Sprintf\<close>: decimal digits, with a sign for a negative \<open>int\<close>.\<close>

function decimal :: "nat \<Rightarrow> string" where
  "decimal n =
     (if n < 10 then [char_of (48 + n)]
      else decimal (n div 10) @ [char_of (48 + n mod 10)])"
  by pat_completeness auto
termination
  by (relation "measure id") auto

definition fmtUint :: "uintptr \<Rightarrow> string" where
  "fmtUint w = decimal (unat w)"

definition fmtInt :: "goint \<Rightarrow> string" where
  "fmtInt w = (if sint w < 0 then CHR ''-'' # decimal (nat (- sint w)) else decimal (nat (sint w)))"

text \<open>\<open>strings.Repeat\<close> panics on a negative count.\<close>

definition strings_Repeat :: "string \<Rightarrow> goint \<Rightarrow> error + string" where
  "strings_Repeat s n =
     (if sint n < 0 then Inl NegativeRepeatCount
      else Inr (concat (replicate (nat (sint n)) s)))"

fun strings_Join :: "string list \<Rightarrow> string \<Rightarrow> string" where
  "strings_Join [] sep = []"
| "strings_Join [x] sep = x"
| "strings_Join (x # y # ys) sep = x @ sep @ strings_Join (y # ys) sep"

definition dumpHead ::
  "(opType \<Rightarrow> codeType) \<Rightarrow> (opType \<Rightarrow> string) \<Rightarrow> opcode \<Rightarrow> error + string" where
  "dumpHead ct os code =
     (let len = (if ct (op code) = codeArrayHead then length_f code
                 else length_f code div uintptrSize)
      in case strings_Repeat ''-'' (indent code) of Inl e \<Rightarrow> Inl e
         | Inr ind \<Rightarrow> Inr (''['' @ fmtInt (displayIdx code) @ '']'' @ ind @ os (op code)
             @ '' ([idx:'' @ fmtUint (idx code div uintptrSize)
             @ ''][headIdx:'' @ fmtUint (headIdx code div uintptrSize)
             @ ''][elemIdx:'' @ fmtUint (elemIdx code div uintptrSize)
             @ ''][length:'' @ fmtUint len @ ''])''))"

definition dumpMapHead :: "(opType \<Rightarrow> string) \<Rightarrow> opcode \<Rightarrow> error + string" where
  "dumpMapHead os code =
     (case strings_Repeat ''-'' (indent code) of Inl e \<Rightarrow> Inl e
      | Inr ind \<Rightarrow> Inr (''['' @ fmtInt (displayIdx code) @ '']'' @ ind @ os (op code)
          @ '' ([idx:'' @ fmtUint (idx code div uintptrSize)
          @ ''][headIdx:'' @ fmtUint (headIdx code div uintptrSize)
          @ ''][elemIdx:'' @ fmtUint (elemIdx code div uintptrSize)
          @ ''][length:'' @ fmtUint (length_f code div uintptrSize)
          @ ''][mapIter:'' @ fmtUint (mapIter code div uintptrSize) @ ''])''))"

definition dumpMapEnd :: "(opType \<Rightarrow> string) \<Rightarrow> opcode \<Rightarrow> error + string" where
  "dumpMapEnd os code =
     (case strings_Repeat ''-'' (indent code) of Inl e \<Rightarrow> Inl e
      | Inr ind \<Rightarrow> Inr (''['' @ fmtInt (displayIdx code) @ '']'' @ ind @ os (op code)
          @ '' ([idx:'' @ fmtUint (idx code div uintptrSize)
          @ ''][mapPos:'' @ fmtUint (mapPos code div uintptrSize)
          @ ''][length:'' @ fmtUint (length_f code div uintptrSize) @ ''])''))"

definition dumpElem ::
  "(opType \<Rightarrow> codeType) \<Rightarrow> (opType \<Rightarrow> string) \<Rightarrow> opcode \<Rightarrow> error + string" where
  "dumpElem ct os code =
     (let len = (if ct (op code) = codeArrayElem then length_f code
                 else length_f code div uintptrSize)
      in case strings_Repeat ''-'' (indent code) of Inl e \<Rightarrow> Inl e
         | Inr ind \<Rightarrow> Inr (''['' @ fmtInt (displayIdx code) @ '']'' @ ind @ os (op code)
             @ '' ([idx:'' @ fmtUint (idx code div uintptrSize)
             @ ''][headIdx:'' @ fmtUint (headIdx code div uintptrSize)
             @ ''][elemIdx:'' @ fmtUint (elemIdx code div uintptrSize)
             @ ''][length:'' @ fmtUint len
             @ ''][size:'' @ fmtUint (size_f code) @ ''])''))"

definition dumpField :: "(opType \<Rightarrow> string) \<Rightarrow> opcode \<Rightarrow> error + string" where
  "dumpField os code =
     (case strings_Repeat ''-'' (indent code) of Inl e \<Rightarrow> Inl e
      | Inr ind \<Rightarrow> Inr (''['' @ fmtInt (displayIdx code) @ '']'' @ ind @ os (op code)
          @ '' ([idx:'' @ fmtUint (idx code div uintptrSize)
          @ ''][key:'' @ displayKey code
          @ ''][offset:'' @ fmtUint (offset_f code)
          @ ''][headIdx:'' @ fmtUint (headIdx code div uintptrSize) @ ''])''))"

definition dumpKey :: "(opType \<Rightarrow> string) \<Rightarrow> opcode \<Rightarrow> error + string" where
  "dumpKey os code =
     (case strings_Repeat ''-'' (indent code) of Inl e \<Rightarrow> Inl e
      | Inr ind \<Rightarrow> Inr (''['' @ fmtInt (displayIdx code) @ '']'' @ ind @ os (op code)
          @ '' ([idx:'' @ fmtUint (idx code div uintptrSize)
          @ ''][elemIdx:'' @ fmtUint (elemIdx code div uintptrSize)
          @ ''][length:'' @ fmtUint (length_f code div uintptrSize)
          @ ''][mapIter:'' @ fmtUint (mapIter code div uintptrSize) @ ''])''))"

definition dumpValue :: "(opType \<Rightarrow> string) \<Rightarrow> opcode \<Rightarrow> error + string" where
  "dumpValue os code =
     (case strings_Repeat ''-'' (indent code) of Inl e \<Rightarrow> Inl e
      | Inr ind \<Rightarrow> Inr (''['' @ fmtInt (displayIdx code) @ '']'' @ ind @ os (op code)
          @ '' ([idx:'' @ fmtUint (idx code div uintptrSize)
          @ ''][mapIter:'' @ fmtUint (mapIter code div uintptrSize) @ ''])''))"

text \<open>The \<open>default\<close> branch of the switch of \<open>dump\<close>, which formats its line in place.\<close>

definition dumpDefault :: "(opType \<Rightarrow> string) \<Rightarrow> opcode \<Rightarrow> error + string" where
  "dumpDefault os code =
     (case strings_Repeat ''-'' (indent code) of Inl e \<Rightarrow> Inl e
      | Inr ind \<Rightarrow> Inr (''['' @ fmtInt (displayIdx code) @ '']'' @ ind @ os (op code)
          @ '' ([idx:'' @ fmtUint (idx code div uintptrSize) @ ''])''))"

text \<open>The switch of \<open>dump\<close>: the line of one opcode and the opcode the loop goes to.\<close>

definition dumpStep ::
  "(opType \<Rightarrow> codeType) \<Rightarrow> (opType \<Rightarrow> string) \<Rightarrow> opcode \<Rightarrow> (error + string) \<times> ptr" where
  "dumpStep ct os code =
     (case ct (op code) of
        codeSliceHead \<Rightarrow> (dumpHead ct os code, next_f code)
      | codeMapHead \<Rightarrow> (dumpMapHead os code, next_f code)
      | codeArrayElem \<Rightarrow> (dumpElem ct os code, end_f code)
      | codeSliceElem \<Rightarrow> (dumpElem ct os code, end_f code)
      | codeMapKey \<Rightarrow> (dumpKey os code, end_f code)
      | codeMapValue \<Rightarrow> (dumpValue os code, next_f code)
      | codeMapEnd \<Rightarrow> (dumpMapEnd os code, next_f code)
      | codeStructField \<Rightarrow> (dumpField os code, next_f code)
      | _ \<Rightarrow> (dumpDefault os code, next_f code))"

fun dump_loop ::
  "nat \<Rightarrow> (opType \<Rightarrow> codeType) \<Rightarrow> (opType \<Rightarrow> string) \<Rightarrow> heap \<Rightarrow> ptr \<Rightarrow> string list
     \<Rightarrow> (error + string list) option" where
  "dump_loop 0 ct os h code codes = None"
| "dump_loop (Suc n) ct os h code codes =
     (case deref h code of Inl e \<Rightarrow> Some (Inl e)
      | Inr c \<Rightarrow>
          if op c = opEnd then Some (Inr codes)
          else (case dumpStep ct os c of
                  (Inl e, nx) \<Rightarrow> Some (Inl e)
                | (Inr s, nx) \<Rightarrow> dump_loop n ct os h nx (codes @ [s])))"

definition dump ::
  "nat \<Rightarrow> (opType \<Rightarrow> codeType) \<Rightarrow> (opType \<Rightarrow> string) \<Rightarrow> heap \<Rightarrow> ptr \<Rightarrow> (error + string) option" where
  "dump n ct os h c =
     bindR (dump_loop n ct os h c []) (\<lambda>codes. Some (Inr (strings_Join codes [CHR 0x0A])))"

section \<open>Notions the properties are stated with\<close>

text \<open>
  \<open>path ct h p ns q\<close>: starting at the pointer \<open>p\<close> and following the fallthrough
  edge, the walk visits exactly the opcodes at the addresses \<open>ns\<close>, in this order, and
  the fallthrough edge of the last of them is \<open>q\<close>.
\<close>

primrec path :: "(opType \<Rightarrow> codeType) \<Rightarrow> heap \<Rightarrow> ptr \<Rightarrow> addr list \<Rightarrow> ptr \<Rightarrow> bool" where
  "path ct h p [] q \<longleftrightarrow> p = q"
| "path ct h p (a # as) q \<longleftrightarrow>
     p = Some a \<and> a < length h \<and> path ct h (fallthrough ct (h ! a)) as q"

text \<open>The kinds whose fallthrough edge is \<open>end\<close>.\<close>

definition endKind :: "codeType \<Rightarrow> bool" where
  "endKind t \<longleftrightarrow> t = codeArrayElem \<or> t = codeSliceElem \<or> t = codeMapKey"

definition usesEnd :: "(opType \<Rightarrow> codeType) \<Rightarrow> opcode \<Rightarrow> bool" where
  "usesEnd ct c \<longleftrightarrow> endKind (ct (op c))"

text \<open>The value slot of an opcode in stride units, as \<open>totalLength\<close> reads it.\<close>

definition slotIndex :: "heap \<Rightarrow> addr \<Rightarrow> nat" where
  "slotIndex h a = unat (idx (h ! a)) div 8"

text \<open>
  The opcodes whose value slot \<open>totalLength\<close> reads on a walk over \<open>ns\<close> that stops at
  \<open>e\<close>: the stopping opcode is read when it is \<open>opInterfaceEnd\<close> or
  \<open>opStructFieldRecursiveEnd\<close>, and not read when it is the terminal \<open>opEnd\<close>.
\<close>

definition seen :: "heap \<Rightarrow> addr list \<Rightarrow> addr \<Rightarrow> addr list" where
  "seen h ns e = (if op (h ! e) = opEnd then ns else ns @ [e])"

section \<open>Example graphs\<close>

definition exampleCtx :: encodeCompileContext where
  "exampleCtx = \<lparr>ctx_typ = None, ctx_root = True, opcodeIndex = 0, ptrIndex = 1, ctx_indent = 0\<rparr>"

text \<open>Three record fields \<open>a\<close>, \<open>b\<close>, \<open>c\<close> in a row, then the terminal opcode.\<close>

definition fieldChain :: heap where
  "fieldChain =
     [(opcodeLit (opOther 0))\<lparr>idx := 8, displayIdx := 1, nextField := Some 1, next_f := Some 1\<rparr>,
      (opcodeLit (opOther 0))\<lparr>idx := 16, displayIdx := 2, nextField := Some 2, next_f := Some 2\<rparr>,
      (opcodeLit (opOther 0))\<lparr>idx := 24, displayIdx := 3, next_f := Some 3\<rparr>,
      (opcodeLit opEnd)\<lparr>idx := 32, displayIdx := 4\<rparr>]"

text \<open>
  A record field, a slice element whose \<open>end\<close> edge leads to the second record field,
  that field, and the terminal opcode.
\<close>

definition elemChain :: heap where
  "elemChain =
     [(opcodeLit (opOther 0))\<lparr>idx := 8, nextField := Some 2, next_f := Some 1\<rparr>,
      (opcodeLit opSliceElem)\<lparr>idx := 16, end_f := Some 2\<rparr>,
      (opcodeLit (opOther 0))\<lparr>idx := 24, next_f := Some 3\<rparr>,
      (opcodeLit opEnd)\<lparr>idx := 32\<rparr>]"

text \<open>
  The end of a map as \<open>newMapEndCode\<close> lays it out (the position slot right before the
  value slot), followed by the terminal opcode.
\<close>

definition mapEndChain :: heap where
  "mapEndChain =
     [(opcodeLit opMapEnd)\<lparr>idx := 40, length_f := 16, mapPos := 32, next_f := Some 1\<rparr>,
      (opcodeLit opEnd)\<lparr>idx := 48\<rparr>]"

section \<open>Properties\<close>

subsection \<open>Constructors\<close>

lemma newMapHeaderCode_unfold:
  "newMapHeaderCode ctx withLoad h =
     (Some (length h),
      h @ [(opcodeLit (if withLoad then opMapHeadLoad else opMapHead))\<lparr>typ_f := ctx_typ ctx,
             displayIdx := opcodeIndex ctx, idx := opcodeOffset (ptrIndex ctx),
             elemIdx := opcodeOffset (ptrIndex ctx + 1),
             length_f := opcodeOffset (ptrIndex ctx + 2),
             mapIter := opcodeOffset (ptrIndex ctx + 3), indent := ctx_indent ctx\<rparr>],
      ctx\<lparr>ptrIndex := ptrIndex ctx + 3\<rparr>)"
  by (simp add: newMapHeaderCode_def Let_def alloc_def incPtrIndex_def ac_simps)

lemma newSliceHeaderCode_unfold:
  "newSliceHeaderCode ctx h =
     (Some (length h),
      h @ [(opcodeLit opSliceHead)\<lparr>displayIdx := opcodeIndex ctx,
             idx := opcodeOffset (ptrIndex ctx), headIdx := opcodeOffset (ptrIndex ctx),
             elemIdx := opcodeOffset (ptrIndex ctx + 1),
             length_f := opcodeOffset (ptrIndex ctx + 2), indent := ctx_indent ctx\<rparr>],
      ctx\<lparr>ptrIndex := ptrIndex ctx + 2\<rparr>)"
  by (simp add: newSliceHeaderCode_def Let_def alloc_def incPtrIndex_def ac_simps)

text \<open>
  Claim C7. The map header constructor takes four consecutive slots, one stride apart,
  starting at the next free slot of the context: the value slot \<open>idx\<close>, then the
  element, length and iterator slots. Called with the other value of \<open>withLoad\<close> on
  the same context and heap it returns the same address, the same context and a node
  that differs in the operation kind only (\<open>opMapHeadLoad\<close> against \<open>opMapHead\<close>).
\<close>

theorem newMapHeaderCode_layout:
  "\<exists>c. newMapHeaderCode ctx withLoad h
          = (Some (length h), h @ [c], ctx\<lparr>ptrIndex := ptrIndex ctx + 3\<rparr>)
     \<and> idx c = opcodeOffset (ptrIndex ctx)
     \<and> elemIdx c = idx c + uintptrSize
     \<and> length_f c = idx c + 2 * uintptrSize
     \<and> mapIter c = idx c + 3 * uintptrSize
     \<and> op c = (if withLoad then opMapHeadLoad else opMapHead)
     \<and> newMapHeaderCode ctx (\<not> withLoad) h
          = (Some (length h),
             h @ [c\<lparr>op := (if withLoad then opMapHead else opMapHeadLoad)\<rparr>],
             ctx\<lparr>ptrIndex := ptrIndex ctx + 3\<rparr>)"
  by (simp add: newMapHeaderCode_unfold opcodeOffset_def opcodeLit_def algebra_simps)



subsection \<open>Walks\<close>



lemma deref_Some: "a < length h \<Longrightarrow> deref h (Some a) = Inr (h ! a)"
  by (simp add: deref_def)










subsection \<open>Register-file size\<close>






lemmas example_simps = fieldChain_def opcodeLit_def fallthrough_def slotIndex_def seen_def






lemma fallthrough_usesEnd:
  "fallthrough ct c = (if usesEnd ct c then end_f c else next_f c)"
  by (cases "ct (op c)") (simp_all add: fallthrough_def usesEnd_def endKind_def)

lemma path_append:
  "path ct h p (xs @ ys) q \<longleftrightarrow> (\<exists>r. path ct h p xs r \<and> path ct h r ys q)"
  by (induction xs arbitrary: p) auto

lemma path_cong:
  "length h' = length h \<Longrightarrow> \<forall>a \<in> set ns. fallthrough ct (h' ! a) = fallthrough ct (h ! a)
     \<Longrightarrow> path ct h' p ns q = path ct h p ns q"
  by (induction ns arbitrary: p) auto

lemma path_unique_end:
  assumes "path ct h p xs (Some e)" and "path ct h p ys (Some e')"
    and "\<forall>n \<in> set xs. op (h ! n) \<noteq> opEnd" and "\<forall>n \<in> set ys. op (h ! n) \<noteq> opEnd"
    and "op (h ! e) = opEnd" and "op (h ! e') = opEnd"
  shows "xs = ys"
  using assms
proof (induction xs arbitrary: ys p)
  case Nil
  then show ?case by (cases ys) auto
next
  case (Cons x xs)
  show ?case
  proof (cases ys)
    case Nil
    with Cons.prems show ?thesis by auto
  next
    case (Cons y ys')
    with Cons.prems have "x = y" and "path ct h (fallthrough ct (h ! x)) xs (Some e)"
      and "path ct h (fallthrough ct (h ! x)) ys' (Some e')" by auto
    with Cons.IH [of "fallthrough ct (h ! x)" ys'] Cons.prems Cons show ?thesis by auto
  qed
qed

lemma path_distinct:
  assumes "path ct h p xs (Some e)" and "\<forall>n \<in> set xs. op (h ! n) \<noteq> opEnd"
    and "op (h ! e) = opEnd"
  shows "distinct xs"
proof (rule ccontr)
  assume "\<not> distinct xs"
  then obtain us vs ws y where xs: "xs = us @ [y] @ vs @ [y] @ ws"
    using not_distinct_decomp by blast
  have "path ct h p (us @ ((y # vs) @ (y # ws))) (Some e)"
    using assms(1) xs by simp
  then obtain r where "path ct h r ((y # vs) @ (y # ws)) (Some e)"
    using path_append [THEN iffD1] by blast
  then have long: "path ct h (Some y) ((y # vs) @ (y # ws)) (Some e)"
    by auto
  then obtain r2 where "path ct h r2 (y # ws) (Some e)"
    using path_append [THEN iffD1] by blast
  then have short: "path ct h (Some y) (y # ws) (Some e)"
    by auto
  have "(y # vs) @ (y # ws) = y # ws"
    using long short
  proof (rule path_unique_end)
    show "\<forall>n \<in> set ((y # vs) @ (y # ws)). op (h ! n) \<noteq> opEnd"
      using assms(2) xs by auto
    show "\<forall>n \<in> set (y # ws). op (h ! n) \<noteq> opEnd"
      using assms(2) xs by auto
  qed (rule assms(3))+
  then show False by simp
qed

lemma link_loop_miss:
  assumes "path ct h (Some a) (a # as) (Some e)"
    and "\<forall>n \<in> set as. op (h ! n) \<noteq> opEnd \<and> Some n \<noteq> fcode"
    and "e < length h" and "op (h ! e) = opEnd" and "fcode \<noteq> Some e"
    and "length as < n"
  shows "linkPrevToNextField_loop n ct fcode h (Some a) = Some (Inr h)"
  using assms
proof (induction as arbitrary: a n)
  case Nil
  then obtain m where "n = Suc m" by (cases n) auto
  with Nil show ?case by (auto simp add: deref_Some Let_def)
next
  case (Cons b bs)
  then obtain m where "n = Suc m" by (cases n) auto
  with Cons.prems Cons.IH [of b m] show ?case by (auto simp add: deref_Some Let_def)
qed

lemma link_loop_hit:
  assumes "path ct h (Some a) (a # as) (Some b)"
    and "\<forall>n \<in> set as. op (h ! n) \<noteq> opEnd \<and> n \<noteq> b"
    and "b < length h"
    and "length as < n"
  shows "linkPrevToNextField_loop n ct (Some b) h (Some a)
           = Some (Inr (h[last (a # as) := (h ! last (a # as))\<lparr>next_f := next_f (h ! b)\<rparr>]))"
  using assms
proof (induction as arbitrary: a n)
  case Nil
  then obtain m where "n = Suc m" by (cases n) auto
  with Nil show ?case by (auto simp add: deref_Some Let_def store_def)
next
  case (Cons x xs)
  then obtain m where "n = Suc m" by (cases n) auto
  with Cons.prems Cons.IH [of x m] show ?case by (auto simp add: deref_Some Let_def)
qed

lemma fallthrough_nextField [simp]:
  "fallthrough ct (c\<lparr>nextField := x\<rparr>) = fallthrough ct c"
  by (simp add: fallthrough_usesEnd usesEnd_def endKind_def)

lemma fallthrough_nextField_update:
  "fallthrough ct (h[a := (h ! a)\<lparr>nextField := x\<rparr>] ! i) = fallthrough ct (h ! i)"
  by (cases "i = a"; cases "a < length h") (simp_all add: list_update_beyond)

lemma path_nextField_update:
  "path ct (h[a := (h ! a)\<lparr>nextField := x\<rparr>]) p ns q = path ct h p ns q"
  by (rule path_cong) (simp_all add: fallthrough_nextField_update)

subsection \<open>Splicing a field out\<close>

text \<open>
  Claim C10. When \<open>cur\<close> (at \<open>b\<close>) is not the fallthrough successor of any opcode on the
  chain of \<open>prev\<close> (at \<open>a\<close>, the chain being \<open>a # as\<close> up to the terminal opcode \<open>e\<close>),
  \<open>linkPrevToNextField\<close> returns within \<open>length as + 1\<close> iterations, and the heap it
  leaves is the old heap with \<open>prev.nextField\<close> set to \<open>cur.nextField\<close>: no other field
  of any opcode changes.
\<close>

theorem linkPrevToNextField_miss:
  assumes "path ct h (Some a) (a # as) (Some e)"
    and "\<forall>n \<in> set as. op (h ! n) \<noteq> opEnd \<and> n \<noteq> b"
    and "e < length h" and "op (h ! e) = opEnd" and "b \<noteq> e" and "b < length h"
    and "length as < n"
  shows "linkPrevToNextField n ct (Some a) (Some b) h
           = Some (Inr (h[a := (h ! a)\<lparr>nextField := nextField (h ! b)\<rparr>]))"
proof -
  let ?h1 = "h[a := (h ! a)\<lparr>nextField := nextField (h ! b)\<rparr>]"
  have a: "a < length h" using assms(1) by simp
  have ops: "op (?h1 ! i) = op (h ! i)" for i
    by (cases "i = a") (auto simp add: a)
  have "linkPrevToNextField_loop n ct (Some b) ?h1 (Some a) = Some (Inr ?h1)"
  proof (rule link_loop_miss)
    show "path ct ?h1 (Some a) (a # as) (Some e)"
      using assms(1) by (simp only: path_nextField_update)
  qed (use assms in \<open>auto simp add: ops\<close>)
  then show ?thesis
    using a assms(6) by (simp add: linkPrevToNextField_def deref_Some store_def)
qed





lemma path_valid: "path ct h p ns q \<Longrightarrow> \<forall>n \<in> set ns. n < length h"
  by (induction ns arbitrary: p) auto

lemma path_snoc:
  "path ct h p (xs @ [x]) q \<longleftrightarrow>
     path ct h p xs (Some x) \<and> x < length h \<and> q = fallthrough ct (h ! x)"
  by (auto simp add: path_append)

text \<open>
  Claim C3, amended. Let the walk from \<open>a\<close> reach \<open>b\<close> over \<open>a # as\<close> and go on from \<open>b\<close>
  over \<open>bs\<close> to the terminal opcode \<open>e\<close>, and let neither \<open>b\<close> nor the opcode right
  before \<open>b\<close> on the walk be an array element, a slice element or a map key. Then
  \<open>linkPrevToNextField\<close> returns, \<open>a.nextField\<close> is the former \<open>b.nextField\<close>, the
  \<open>next\<close> edge of the opcode before \<open>b\<close> (its fallthrough edge) is the former fallthrough
  successor of \<open>b\<close>, nothing else changes, and the walk from \<open>a\<close> in the new heap is
  \<open>a # as @ bs\<close> up to \<open>e\<close>: it does not visit \<open>b\<close>.
\<close>

theorem linkPrevToNextField_splice:
  assumes to_b: "path ct h (Some a) (a # as) (Some b)"
    and from_b: "path ct h (Some b) (b # bs) (Some e)"
    and inner: "\<forall>n \<in> set (a # as @ b # bs). op (h ! n) \<noteq> opEnd"
    and e: "e < length h" "op (h ! e) = opEnd"
    and kinds: "\<not> usesEnd ct (h ! last (a # as))" "\<not> usesEnd ct (h ! b)"
    and fuel: "length as < n"
  shows "\<exists>h'. linkPrevToNextField n ct (Some a) (Some b) h = Some (Inr h')
      \<and> h' = (h[a := (h ! a)\<lparr>nextField := nextField (h ! b)\<rparr>])
               [last (a # as) := (h[a := (h ! a)\<lparr>nextField := nextField (h ! b)\<rparr>] ! last (a # as))
                                   \<lparr>next_f := next_f (h ! b)\<rparr>]
      \<and> nextField (h' ! a) = nextField (h ! b)
      \<and> fallthrough ct (h' ! last (a # as)) = fallthrough ct (h ! b)
      \<and> path ct h' (Some a) (a # as @ bs) (Some e)
      \<and> op (h' ! e) = opEnd
      \<and> (\<forall>n \<in> set (a # as @ bs). op (h' ! n) \<noteq> opEnd)
      \<and> b \<notin> set (a # as @ bs) \<and> b \<noteq> e"
proof -
  define p where "p = last (a # as)"
  define h1 where "h1 = h[a := (h ! a)\<lparr>nextField := nextField (h ! b)\<rparr>]"
  define h' where "h' = h1[p := (h1 ! p)\<lparr>next_f := next_f (h ! b)\<rparr>]"
  have full: "path ct h (Some a) ((a # as) @ (b # bs)) (Some e)"
    using to_b from_b path_append [of ct h "Some a" "a # as" "b # bs" "Some e"] by blast
  have dist: "distinct ((a # as) @ (b # bs))"
    using full inner e(2) by (intro path_distinct [of ct h "Some a" _ e]) auto
  have valid: "\<forall>n \<in> set ((a # as) @ (b # bs)). n < length h"
    using full by (rule path_valid)
  have a: "a < length h" and b: "b < length h" using valid by auto
  have p_in: "p \<in> set (a # as)" unfolding p_def by (rule last_in_set) simp
  have p: "p < length h" using valid p_in by auto
  have p_b: "p \<noteq> b" and b_as: "b \<notin> set (a # as)" and b_bs: "b \<notin> set bs"
    and p_bs: "p \<notin> set bs"
    using dist p_in by auto
  have b_e: "b \<noteq> e" using inner e(2) by auto
  have len: "length h1 = length h" "length h' = length h"
    by (simp_all add: h1_def h'_def)
  have ops1: "op (h1 ! i) = op (h ! i)" for i
    by (cases "i = a") (auto simp add: h1_def a)
  have ops: "op (h' ! i) = op (h ! i)" for i
    by (cases "i = p") (auto simp add: h'_def ops1 p len)
  have next1: "next_f (h1 ! b) = next_f (h ! b)"
    by (cases "b = a") (auto simp add: h1_def a)
  have ft1: "fallthrough ct (h1 ! i) = fallthrough ct (h ! i)" for i
    unfolding h1_def by (rule fallthrough_nextField_update)
  have ft: "i \<noteq> p \<Longrightarrow> fallthrough ct (h' ! i) = fallthrough ct (h ! i)" for i
    by (simp add: h'_def ft1)
  have ft_set: "\<forall>i \<in> set ys. fallthrough ct (h' ! i) = fallthrough ct (h ! i)"
    if "p \<notin> set ys" for ys
  proof
    fix i assume "i \<in> set ys"
    with that have "i \<noteq> p" by auto
    then show "fallthrough ct (h' ! i) = fallthrough ct (h ! i)" by (rule ft)
  qed
  have ft_p: "fallthrough ct (h' ! p) = fallthrough ct (h ! b)"
  proof -
    have "\<not> usesEnd ct (h' ! p)"
      using kinds(1) ops [of p] by (simp add: usesEnd_def p_def)
    then have "fallthrough ct (h' ! p) = next_f (h' ! p)"
      by (simp add: fallthrough_usesEnd)
    also have "\<dots> = next_f (h ! b)"
      by (simp add: h'_def p len)
    also have "\<dots> = fallthrough ct (h ! b)"
      using kinds(2) by (simp add: fallthrough_usesEnd)
    finally show ?thesis .
  qed
  have "linkPrevToNextField_loop n ct (Some b) h1 (Some a)
          = Some (Inr (h1[last (a # as) := (h1 ! last (a # as))\<lparr>next_f := next_f (h1 ! b)\<rparr>]))"
  proof (rule link_loop_hit)
    show "path ct h1 (Some a) (a # as) (Some b)"
      unfolding h1_def using to_b by (simp only: path_nextField_update)
    show "\<forall>n \<in> set as. op (h1 ! n) \<noteq> opEnd \<and> n \<noteq> b"
      using inner b_as by (auto simp add: ops1)
    show "b < length h1" using b len by simp
    show "length as < n" by (rule fuel)
  qed
  then have run: "linkPrevToNextField n ct (Some a) (Some b) h = Some (Inr h')"
    using a b by (simp add: linkPrevToNextField_def deref_Some store_def h1_def [symmetric]
        next1 h'_def p_def)
  have nf: "nextField (h' ! a) = nextField (h ! b)"
    by (cases "a = p") (auto simp add: h'_def h1_def a p len)
  have path1: "path ct h' (Some a) (a # as) (fallthrough ct (h ! b))"
  proof -
    obtain xs where xs: "a # as = xs @ [p]"
      unfolding p_def using append_butlast_last_id [of "a # as"] by (metis list.distinct(1))
    then have "path ct h (Some a) (xs @ [p]) (Some b)" using to_b by simp
    then have pre: "path ct h (Some a) xs (Some p)" by (simp add: path_snoc)
    have "distinct (xs @ [p])" using dist xs by simp
    then have "p \<notin> set xs" by simp
    then have "\<forall>i \<in> set xs. fallthrough ct (h' ! i) = fallthrough ct (h ! i)"
      by (rule ft_set)
    then have "path ct h' (Some a) xs (Some p) = path ct h (Some a) xs (Some p)"
      by (intro path_cong) (simp_all add: len)
    with pre have "path ct h' (Some a) (xs @ [p]) (fallthrough ct (h' ! p))"
      by (simp add: path_snoc p len)
    then show ?thesis by (simp add: xs ft_p)
  qed
  have path2: "path ct h' (fallthrough ct (h ! b)) bs (Some e)"
  proof -
    have "path ct h (fallthrough ct (h ! b)) bs (Some e)" using from_b by simp
    moreover have "\<forall>i \<in> set bs. fallthrough ct (h' ! i) = fallthrough ct (h ! i)"
      using p_bs by (rule ft_set)
    then have "path ct h' (fallthrough ct (h ! b)) bs (Some e)
        = path ct h (fallthrough ct (h ! b)) bs (Some e)"
      by (intro path_cong) (simp_all add: len)
    ultimately show ?thesis by simp
  qed
  have new: "path ct h' (Some a) (a # as @ bs) (Some e)"
    using path1 path2 path_append [of ct h' "Some a" "a # as" bs "Some e"] by auto
  have "\<forall>n \<in> set (a # as @ bs). op (h' ! n) \<noteq> opEnd"
    using inner by (auto simp add: ops)
  moreover have "b \<notin> set (a # as @ bs)" using b_as b_bs by auto
  moreover have "op (h' ! e) = opEnd" using e(2) by (simp add: ops)
  ultimately show ?thesis
    using run nf ft_p new b_e
    by (intro exI [of _ h']) (simp add: h'_def h1_def p_def)
qed





lemmas ex2 = elemChain_def mapEndChain_def usesEnd_def endKind_def deref_def store_def Let_def

theorem linkPrevToNextField_miss_witness:
  "path codeTypeOf fieldChain (Some 1) [1, 2] (Some 3)
   \<and> op (fieldChain ! 3) = opEnd
   \<and> linkPrevToNextField 2 codeTypeOf (Some 1) (Some 0) fieldChain
       = Some (Inr (fieldChain[1 := (fieldChain ! 1)\<lparr>nextField := Some 1\<rparr>]))"
proof -
  have 1: "path codeTypeOf fieldChain (Some 1) [1, 2] (Some 3)"
    by (simp add: example_simps)
  have 2: "\<forall>n \<in> set [2]. op (fieldChain ! n) \<noteq> opEnd \<and> n \<noteq> 0"
    by (simp add: example_simps)
  have 3: "3 < length fieldChain" "op (fieldChain ! 3) = opEnd" "0 < length fieldChain"
    "nextField (fieldChain ! 0) = Some 1"
    by (simp_all add: example_simps)
  show ?thesis
    using linkPrevToNextField_miss [OF 1 2 3(1,2) _ 3(3), of 2] 1 3 by simp
qed

theorem linkPrevToNextField_splice_witness:
  "path codeTypeOf fieldChain (Some 0) [0] (Some 1)
   \<and> path codeTypeOf fieldChain (Some 1) [1, 2] (Some 3)
   \<and> op (fieldChain ! 3) = opEnd
   \<and> (\<exists>h'. linkPrevToNextField 1 codeTypeOf (Some 0) (Some 1) fieldChain = Some (Inr h')
         \<and> nextField (h' ! 0) = Some 2
         \<and> fallthrough codeTypeOf (h' ! 0) = Some 2
         \<and> path codeTypeOf h' (Some 0) [0, 2] (Some 3)
         \<and> op (h' ! 3) = opEnd)"
proof -
  have 1: "path codeTypeOf fieldChain (Some 0) [0] (Some 1)"
    by (simp add: example_simps)
  have 2: "path codeTypeOf fieldChain (Some 1) [1, 2] (Some 3)"
    by (simp add: example_simps)
  have 3: "\<forall>n \<in> set (0 # [] @ 1 # [2]). op (fieldChain ! n) \<noteq> opEnd"
    by (simp add: example_simps)
  have 4: "3 < length fieldChain" "op (fieldChain ! 3) = opEnd"
    "\<not> usesEnd codeTypeOf (fieldChain ! last [0])" "\<not> usesEnd codeTypeOf (fieldChain ! 1)"
    by (simp_all add: example_simps usesEnd_def endKind_def)
  have 5: "nextField (fieldChain ! 1) = Some 2" "fallthrough codeTypeOf (fieldChain ! 1) = Some 2"
    by (simp_all add: example_simps)
  show ?thesis
    using linkPrevToNextField_splice [OF 1 2 3 4, of 1] 1 2 4 5 by auto
qed

text \<open>
  The loop of \<open>linkPrevToNextField\<close> always writes the \<open>next\<close> edge. When the opcode
  before \<open>cur\<close> is a slice element, whose fallthrough edge is \<open>end\<close>, the fallthrough
  edge still leads to \<open>cur\<close> after the call and the walk from \<open>prev\<close> still visits it.
\<close>

theorem linkPrevToNextField_elem_counterexample:
  "codeTypeOf (op (elemChain ! 0)) = codeStructField
   \<and> codeTypeOf (op (elemChain ! 2)) = codeStructField
   \<and> path codeTypeOf elemChain (Some 0) [0, 1] (Some 2)
   \<and> path codeTypeOf elemChain (Some 2) [2] (Some 3)
   \<and> op (elemChain ! 3) = opEnd
   \<and> linkPrevToNextField (Suc (Suc 0)) codeTypeOf (Some 0) (Some 2) elemChain
       = Some (Inr (elemChain[0 := (elemChain ! 0)\<lparr>nextField := None\<rparr>,
                              1 := (elemChain ! 1)\<lparr>next_f := Some 3\<rparr>]))
   \<and> fallthrough codeTypeOf
         ((elemChain[0 := (elemChain ! 0)\<lparr>nextField := None\<rparr>,
                     1 := (elemChain ! 1)\<lparr>next_f := Some 3\<rparr>]) ! 1) = Some 2
   \<and> path codeTypeOf (elemChain[0 := (elemChain ! 0)\<lparr>nextField := None\<rparr>,
                                   1 := (elemChain ! 1)\<lparr>next_f := Some 3\<rparr>])
         (Some 0) [0, 1, 2] (Some 3)"
  by (simp add: ex2 opcodeLit_def fallthrough_def linkPrevToNextField_def)

subsection \<open>Re-indexing\<close>

text \<open>
  Claim C1, at the end of a map. \<open>decOpcodeIndex\<close> moves \<open>idx\<close> and the register-backed
  \<open>length\<close> of the \<open>opMapEnd\<close> opcode down by one stride and leaves its position slot
  \<open>mapPos\<close> where it was: 32 before and after, which now is the value slot \<open>idx\<close> as well.
\<close>

theorem decOpcodeIndex_keeps_mapPos:
  "decOpcodeIndex (Suc (Suc 0)) codeTypeOf mapEndChain (Some 0)
     = Some (Inr [(opcodeLit opMapEnd)\<lparr>displayIdx := - 1, idx := 32, length_f := 8, mapPos := 32,
                    next_f := Some 1\<rparr>,
                  (opcodeLit opEnd)\<lparr>idx := 48\<rparr>])"
  by (simp add: ex2 opcodeLit_def fallthrough_def decIndex_def uintptrSize_def)

subsection \<open>Constructors and the terminal opcode\<close>

lemma newOpCode_unfold:
  "newOpCode ctx k h =
     (Some (Suc (length h)),
      h @ [(opcodeLit opEnd)\<lparr>typ_f := ctx_typ ctx, displayIdx := opcodeIndex ctx,
              indent := ctx_indent ctx, idx := opcodeOffset (ptrIndex ctx), next_f := None\<rparr>,
           (opcodeLit k)\<lparr>typ_f := ctx_typ ctx, displayIdx := opcodeIndex ctx,
              indent := ctx_indent ctx, idx := opcodeOffset (ptrIndex ctx),
              next_f := Some (length h)\<rparr>])"
  by (simp add: newOpCode_def newEndOp_def newOpCodeWithNext_def alloc_def)

text \<open>
  Claim C8, amended. The constructors that wire a terminal opcode themselves
  (\<open>newEndOp\<close>, \<open>newOpCode\<close>, \<open>newMapEndCode\<close>, \<open>newInterfaceCode\<close>,
  \<open>newRecursiveCode\<close>) return a head from which the fallthrough edge reaches the
  terminal opcode in at most one step, provided the kind of the head is not one that
  steps through \<open>end\<close>.
\<close>

theorem constructors_reach_terminal:
  assumes "\<not> endKind (ct k)" and "\<not> endKind (ct opMapEnd)" and "\<not> endKind (ct opInterface)"
    and "\<not> endKind (ct opStructFieldRecursive)" and "x < length h"
  shows "(\<exists>e h'. newEndOp ctx h = (Some e, h') \<and> e < length h' \<and> op (h' ! e) = opEnd)
       \<and> (\<exists>a e h'. newOpCode ctx k h = (Some a, h') \<and> op (h' ! a) = k
             \<and> path ct h' (Some a) [a] (Some e) \<and> e < length h' \<and> op (h' ! e) = opEnd)
       \<and> (\<exists>a e h' ctx'. newMapEndCode ctx (Some x) h = Inr (Some a, h', ctx')
             \<and> op (h' ! a) = opMapEnd
             \<and> path ct h' (Some a) [a] (Some e) \<and> e < length h' \<and> op (h' ! e) = opEnd)
       \<and> (\<exists>a e h'. newInterfaceCode ctx h = (Some a, h') \<and> op (h' ! a) = opInterface
             \<and> path ct h' (Some a) [a] (Some e) \<and> e < length h' \<and> op (h' ! e) = opEnd)
       \<and> (\<exists>a e h'. newRecursiveCode ctx j h = (Some a, h') \<and> op (h' ! a) = opStructFieldRecursive
             \<and> path ct h' (Some a) [a] (Some e) \<and> e < length h' \<and> op (h' ! e) = opEnd)"
  using assms
  by (simp add: newOpCode_unfold newEndOp_def newOpCodeWithNext_def alloc_def
      newMapEndCode_def newInterfaceCode_def newRecursiveCode_def deref_Some Let_def
      fallthrough_usesEnd usesEnd_def nth_append opcodeLit_def)

theorem constructors_reach_terminal_witness:
  "(\<exists>a e h'. newOpCode exampleCtx opInterface mapEndChain = (Some a, h')
      \<and> path codeTypeOf h' (Some a) [a] (Some e) \<and> e < length h' \<and> op (h' ! e) = opEnd)
   \<and> (\<exists>a e h' ctx'. newMapEndCode exampleCtx (Some 0) mapEndChain = Inr (Some a, h', ctx')
      \<and> path codeTypeOf h' (Some a) [a] (Some e) \<and> e < length h' \<and> op (h' ! e) = opEnd)"
proof -
  have 1: "\<not> endKind (codeTypeOf opInterface)" "\<not> endKind (codeTypeOf opMapEnd)"
    "\<not> endKind (codeTypeOf opStructFieldRecursive)" "0 < length mapEndChain"
    by (simp_all add: endKind_def mapEndChain_def)
  show ?thesis
    using constructors_reach_terminal [OF 1(1) 1(2) 1(1) 1(3) 1(4), of exampleCtx] by blast
qed

text \<open>
  The header, element, key and value constructors leave \<open>next\<close> and \<open>end\<close> empty for
  their caller to wire: the head that \<open>newSliceHeaderCode\<close> returns is not the terminal
  opcode and has no fallthrough successor, and \<open>beforeLastCode\<close> panics on it.
\<close>

theorem header_constructor_counterexample:
  "newSliceHeaderCode exampleCtx []
     = (Some 0, [(opcodeLit opSliceHead)\<lparr>idx := 8, headIdx := 8, elemIdx := 16, length_f := 24\<rparr>],
        exampleCtx\<lparr>ptrIndex := 3\<rparr>)
   \<and> op ((opcodeLit opSliceHead)\<lparr>idx := 8, headIdx := 8, elemIdx := 16, length_f := 24\<rparr>) \<noteq> opEnd
   \<and> fallthrough codeTypeOf
        ((opcodeLit opSliceHead)\<lparr>idx := 8, headIdx := 8, elemIdx := 16, length_f := 24\<rparr>) = None
   \<and> beforeLastCode (Suc 0) codeTypeOf
        [(opcodeLit opSliceHead)\<lparr>idx := 8, headIdx := 8, elemIdx := 16, length_f := 24\<rparr>] (Some 0)
       = Some (Inl NilDereference)"
  by (simp add: newSliceHeaderCode_unfold exampleCtx_def opcodeOffset_def uintptrSize_def
      opcodeLit_def fallthrough_def deref_def Let_def)

end
